theory Spec2Isabelle
  imports Main
begin

section \<open>Values shared by both source files\<close>

text \<open>
  Go strings are byte sequences, modelled as \<open>string\<close>. A resolved network address
  (\<open>*net.TCPAddr\<close>) is kept in its textual form, a URL likewise.

  Go's \<open>error\<close> values: the errors built by \<open>fmt.Errorf\<close> in \<open>getServerBindaddrs\<close> keep
  the values they format, the error of \<open>errors.New\<close> is a constant, the errors of
  \<open>strconv.Atoi\<close> name the input, and every error made outside this repository (the
  operating system, the network, the PT library) is opaque: \<open>External\<close> with its text.
\<close>

type_synonym addr = string
type_synonym url = string

datatype error =
    External string
  | OptionsError string error         \<comment> \<open>\<open>-options: %q: %s\<close>\<close>
  | BindaddrNoDash string             \<comment> \<open>\<open>-bindaddr: %q: doesn't contain "-"\<close>\<close>
  | BindaddrError string error        \<comment> \<open>\<open>-bindaddr: %q: %s\<close>\<close>
  | MustSpecifyTransports             \<comment> \<open>\<open>must specify -transport or -transports in server mode\<close>\<close>
  | ErrSyntax string                  \<comment> \<open>\<open>strconv.Atoi: parsing %q: invalid syntax\<close>\<close>
  | ErrRange string                   \<comment> \<open>\<open>strconv.Atoi: parsing %q: value out of range\<close>\<close>

section \<open>main.go\<close>

subsection \<open>Proxy modes\<close>

text \<open>The constant block \<open>socks5 = iota; transparentTCP; transparentUDP; stunUDP\<close>.\<close>

definition socks5 :: int where "socks5 = 0"
definition transparentTCP :: int where "transparentTCP = 1"
definition transparentUDP :: int where "transparentUDP = 2"
definition stunUDP :: int where "stunUDP = 3"

text \<open>
  \<open>determineMode\<close>. Its \<open>golog.Infof\<close> lines are not part of the result; Info-level
  logging is left out of the whole model.
\<close>

definition determineMode :: "bool \<Rightarrow> bool \<Rightarrow> int" where
  "determineMode isTransparent isUDP =
     (if isTransparent \<and> isUDP then transparentUDP
      else if isTransparent then transparentTCP
      else if isUDP then stunUDP
      else socks5)"

subsection \<open>Role selection\<close>

text \<open>\<open>checkIsClient\<close> returns \<open>(bool, error)\<close>; \<open>None\<close> is Go's \<open>nil\<close> error.\<close>

definition checkIsClient :: "bool \<Rightarrow> bool \<Rightarrow> bool \<times> error option" where
  "checkIsClient client server =
     (if client then (True, None)
      else if server then (False, None)
      else (True, None))"

subsection \<open>String splitting\<close>

text \<open>
  \<open>strings.Split(s, sep)\<close> and \<open>strings.SplitN(s, sep, n)\<close> of the Go standard library,
  for a separator of one byte: every call of this program passes \<open>","\<close> or \<open>"-"\<close>.
  \<open>Split\<close> of the empty string is the one-element list holding the empty string.
  \<open>SplitN\<close> with \<open>n > 0\<close> returns at most \<open>n\<close> pieces, the last one the unsplit rest.
\<close>

fun Split :: "string \<Rightarrow> char \<Rightarrow> string list" where
  "Split [] sep = [[]]"
| "Split (c # cs) sep =
     (if c = sep then [] # Split cs sep
      else (case Split cs sep of
              p # ps \<Rightarrow> (c # p) # ps
            | [] \<Rightarrow> [[c]]))"

fun SplitN :: "string \<Rightarrow> char \<Rightarrow> nat \<Rightarrow> string list" where
  "SplitN s sep 0 = []"
| "SplitN s sep (Suc 0) = [s]"
| "SplitN s sep (Suc (Suc n)) =
     (if sep \<in> set s
      then takeWhile (\<lambda>c. c \<noteq> sep) s # SplitN (tl (dropWhile (\<lambda>c. c \<noteq> sep) s)) sep (Suc n)
      else [s])"

subsection \<open>Server bind addresses\<close>

text \<open>
  \<open>pt.Bindaddr\<close> and \<open>pt.ServerInfo\<close> of the PT library. The options of one transport are
  a \<open>map[string]interface{}\<close>; the type of its values is the parameter \<open>'v\<close>, and a
  \<open>nil\<close> map (no entry for the transport) is \<open>None\<close>.
\<close>

record 'v Bindaddr =
  MethodName :: string
  Addr :: addr
  Options :: "(string \<rightharpoonup> 'v) option"

record 'v ServerInfo =
  Bindaddrs :: "'v Bindaddr list"
  OrAddr :: "addr option"
  ExtendedOrAddr :: "addr option"
  AuthCookiePath :: string

text \<open>
  \<open>pt.FilterBindaddrs\<close> of the PT library keeps, in order, the bind addresses whose
  method name is one of the given names.
\<close>

definition FilterBindaddrs :: "'v Bindaddr list \<Rightarrow> string list \<Rightarrow> 'v Bindaddr list" where
  "FilterBindaddrs addrs methodNames = filter (\<lambda>ba. MethodName ba \<in> set methodNames) addrs"

text \<open>
  The loop of \<open>getServerBindaddrs\<close> over \<open>strings.Split(serverBindaddr, ",")\<close>, with
  \<open>result\<close> as the accumulator. \<open>pt.ResolveAddr\<close> is a parameter: it belongs to the PT
  library and asks the resolver.
\<close>

fun bindaddr_loop ::
  "(string \<Rightarrow> error + addr) \<Rightarrow> (string \<rightharpoonup> (string \<rightharpoonup> 'v)) \<Rightarrow> string list \<Rightarrow>
   'v Bindaddr list \<Rightarrow> error + 'v Bindaddr list" where
  "bindaddr_loop resolveAddr optionsMap [] result = Inr result"
| "bindaddr_loop resolveAddr optionsMap (spec # specs) result =
     (let parts = SplitN spec CHR ''-'' 2 in
      if length parts \<noteq> 2 then Inl (BindaddrNoDash spec)
      else (case resolveAddr (parts ! 1) of
              Inl err \<Rightarrow> Inl (BindaddrError spec err)
            | Inr a \<Rightarrow>
                bindaddr_loop resolveAddr optionsMap specs
                  (result @ [\<lparr>MethodName = parts ! 0, Addr = a,
                              Options = optionsMap (parts ! 0)\<rparr>])))"

text \<open>
  \<open>getServerBindaddrs\<close>. \<open>pt.ParsePT2ServerParameters\<close> is a parameter. The
  \<open>transports\<close> argument is a pointer, \<open>None\<close> when \<open>nil\<close>. The options map stays
  \<open>nil\<close> (every lookup misses) when the options string is empty. The result comes with
  the messages handed to \<open>golog.Errorf\<close>.
\<close>

datatype bindaddr_log = ErrorParsingOptionsMap string error | NoValidBindaddrs

definition getServerBindaddrs ::
  "(string \<Rightarrow> error + (string \<rightharpoonup> (string \<rightharpoonup> 'v))) \<Rightarrow> (string \<Rightarrow> error + addr) \<Rightarrow>
   string \<Rightarrow> string \<Rightarrow> string option \<Rightarrow> bindaddr_log list \<times> (error + 'v Bindaddr list)" where
  "getServerBindaddrs parsePT2ServerParameters resolveAddr bindaddrList opts transports =
     (case (if opts \<noteq> [] then parsePT2ServerParameters opts else Inr Map.empty) of
        Inl optionsError \<Rightarrow>
          ([ErrorParsingOptionsMap opts optionsError], Inl (OptionsError opts optionsError))
      | Inr optionsMap \<Rightarrow>
          (case bindaddr_loop resolveAddr optionsMap (Split bindaddrList CHR '','') [] of
             Inl err \<Rightarrow> ([], Inl err)
           | Inr result \<Rightarrow>
               (case transports of
                  None \<Rightarrow> ([], Inl MustSpecifyTransports)
                | Some serverTransports \<Rightarrow>
                    (let result' = FilterBindaddrs result (Split serverTransports CHR '','') in
                     (if length result' = 0 then [NoValidBindaddrs] else [], Inr result')))))"

text \<open>
  The vocabulary of the bind-spec grammar \<open>name-host:port\<close>. An entry is given by its
  parts: the transport name, the text \<open>host:port\<close> and the address it resolves to. Its
  text joins name and \<open>host:port\<close> with the separator; it is well formed when the name
  holds no \<open>-\<close> (so the first \<open>-\<close> of the text is the separator) and \<open>host:port\<close> resolves
  to the address; its BindSpec has the name, the address and the options of the name.
\<close>

fun entry_text :: "string \<times> string \<times> addr \<Rightarrow> string" where
  "entry_text (name, hostport, a) = name @ ''-'' @ hostport"

fun entry_ok :: "(string \<Rightarrow> error + addr) \<Rightarrow> string \<times> string \<times> addr \<Rightarrow> bool" where
  "entry_ok resolveAddr (name, hostport, a) =
     (CHR ''-'' \<notin> set name \<and> resolveAddr hostport = Inr a)"

fun entry_bindaddr :: "(string \<rightharpoonup> (string \<rightharpoonup> 'v)) \<Rightarrow> string \<times> string \<times> addr \<Rightarrow> 'v Bindaddr" where
  "entry_bindaddr optionsMap (name, hostport, a) =
     \<lparr>MethodName = name, Addr = a, Options = optionsMap name\<rparr>"

subsection \<open>The command line and the process environment\<close>

text \<open>
  The flags after \<open>flag.Parse()\<close>, one field per flag variable of \<open>main\<close> (\<open>f_state\<close> is
  \<open>statePath\<close>, \<open>f_transports\<close> is \<open>transportsList\<close>, \<open>f_proxylistenaddr\<close> is
  \<open>socksAddr\<close>).
\<close>

record flags =
  f_ptversion :: string
  f_state :: string
  f_exitOnStdinClose :: bool
  f_transports :: string
  f_proxy :: string
  f_options :: string
  f_bindaddr :: string
  f_extorport :: string
  f_authcookie :: string
  f_proxylistenaddr :: string
  f_optionsFile :: string
  f_showVersion :: bool
  f_client :: bool
  f_server :: bool
  f_transparent :: bool
  f_udp :: bool
  f_target :: string

text \<open>
  What \<open>main\<close> asks of the operating system, of the PT library and of the packages of
  this program that are not in the source at hand: each is a field of the environment,
  so every result they can give is an input of the model.
  \<^item> \<open>OpenLogFile\<close>: the error of \<open>os.OpenFile\<close> on the log file;
  \<^item> \<open>MkdirAll\<close>, \<open>Stat\<close>, \<open>ReadFile\<close>: the file system;
  \<^item> \<open>MakeStateDir\<close>: \<open>pt.MakeStateDir()\<close>;
  \<^item> \<open>validatetarget\<close>: the function of that name, applied to the role and the target;
  \<^item> \<open>Transports\<close>: \<open>transports.Transports()\<close>; \<open>PtGetProxy\<close>: \<open>pt_extras.PtGetProxy\<close>;
  \<^item> \<open>ParsePT2ServerParameters\<close>, \<open>ResolveAddr\<close>: the PT library;
  \<^item> \<open>modeClientSetup\<close>, \<open>modeServerSetup\<close>: \<open>ClientSetup\<close> and \<open>ServerSetup\<close> of the
    four mode packages as \<open>main\<close> calls them, by mode, returning \<open>launched\<close>.
\<close>

record 'v env =
  OpenLogFile :: "error option"
  MkdirAll :: "string \<Rightarrow> error option"
  MakeStateDir :: "string \<times> error option"
  Stat :: "string \<Rightarrow> error option"
  ReadFile :: "string \<Rightarrow> error + string"
  validatetarget :: "bool \<Rightarrow> string \<Rightarrow> error option"
  Transports :: "string list"
  PtGetProxy :: "string \<Rightarrow> error + url option"
  ParsePT2ServerParameters :: "string \<Rightarrow> error + (string \<rightharpoonup> (string \<rightharpoonup> 'v))"
  ResolveAddr :: "string \<Rightarrow> error + addr"
  modeClientSetup :: "int \<Rightarrow> string \<Rightarrow> url option \<Rightarrow> string list \<Rightarrow> string \<Rightarrow> bool"
  modeServerSetup :: "int \<Rightarrow> 'v ServerInfo \<Rightarrow> string \<Rightarrow> string \<Rightarrow> bool"

text \<open>
  What the process does that can be seen from outside, in order: lines printed, the
  usage text, and the calls of \<open>golog.Error\<close>/\<open>Errorf\<close> and \<open>golog.Fatal\<close>/\<open>Fatalf\<close>
  with the message they carry, and the calls of a setup routine (the only place where a
  listener is opened).
\<close>

datatype message =
    NeedClientOrServer               \<comment> \<open>either --client or --server is required\<close>
  | NoStateDirectory                 \<comment> \<open>No state directory: Use --state\<close>
  | OptionsAndOptionsFile            \<comment> \<open>cannot specify -options and -optionsFile at the same time\<close>
  | OptionsFileDoesNotExist string error
  | CouldNotOpenOptionsFile string
  | ValidationError error
  | TargetInClientMode               \<comment> \<open>cannot use -target in client mode\<close>
  | RequiresBindaddr int             \<comment> \<open>socks5/transparent/STUN mode requires a bindaddr\<close>
  | UnsupportedMode int
  | MustSpecifyVersionAndTransports  \<comment> \<open>must specify -version and -transports\<close>
  | BindaddrLog bindaddr_log
  | ErrorText error                  \<comment> \<open>\<open>golog.Errorf(err.Error())\<close>\<close>
  | ErrorParsingBindaddrs string string string
  | ErrorResolvingORAddress string error
  | ErrorResolvingExtendedORAddress string error

datatype event =
    PrintVersion
  | Println string
  | Usage
  | Errorf message
  | Fatalf message
  | CallClientSetup int string "url option" "string list" string
  | CallServerSetup int string string

text \<open>
  How \<open>main\<close> ends: \<open>os.Exit\<close> with a code (\<open>golog.Fatal\<close> exits with 1), a plain
  \<open>return\<close>, or serving for ever (\<open>select {}\<close>, or reading standard input to its end
  under \<open>-exit-on-stdin-close\<close>).
\<close>

datatype outcome = Exit int | Return | Serving

definition makeStateDir :: "'v env \<Rightarrow> string \<Rightarrow> string \<times> error option" where
  "makeStateDir w statePath =
     (if statePath \<noteq> [] then (statePath, MkdirAll w statePath) else MakeStateDir w)"

text \<open>
  \<open>getClientNames\<close>. Both pointers come from \<open>flag.String\<close> and are never \<open>nil\<close>, so the
  fallback to the environment variables is not taken. \<open>pt_extras.PtProxyDone()\<close> only
  writes a status line.
\<close>

definition getClientNames :: "'v env \<Rightarrow> string \<Rightarrow> string \<Rightarrow> error + (url option \<times> string list)" where
  "getClientNames w transportsList proxy =
     (let methodNames = (if transportsList = ''*'' then Transports w
                         else Split transportsList CHR '','') in
      case PtGetProxy w proxy of
        Inl proxyErr \<Rightarrow> Inl proxyErr
      | Inr ptClientProxy \<Rightarrow> Inr (ptClientProxy, methodNames))"

text \<open>
  \<open>getServerInfo\<close>, with its \<open>golog.Errorf\<close> lines. The zero \<open>pt.ServerInfo\<close> is returned
  when the bind addresses do not parse.
\<close>

definition zeroServerInfo :: "'v ServerInfo" where
  "zeroServerInfo = \<lparr>Bindaddrs = [], OrAddr = None, ExtendedOrAddr = None, AuthCookiePath = []\<rparr>"

definition getServerInfo :: "'v env \<Rightarrow> flags \<Rightarrow> string \<Rightarrow> event list \<times> 'v ServerInfo" where
  "getServerInfo w f opts =
     (case getServerBindaddrs (ParsePT2ServerParameters w) (ResolveAddr w)
             (f_bindaddr f) opts (Some (f_transports f)) of
        (lg, Inl err) \<Rightarrow>
          (map (Errorf \<circ> BindaddrLog) lg @
             [Errorf (ErrorText err),
              Errorf (ErrorParsingBindaddrs (f_bindaddr f) opts (f_transports f))],
           zeroServerInfo)
      | (lg, Inr bindaddrs) \<Rightarrow>
          (let ev = map (Errorf \<circ> BindaddrLog) lg;
               info = zeroServerInfo\<lparr>Bindaddrs := bindaddrs\<rparr> in
           case ResolveAddr w (f_target f) of
             Inl err \<Rightarrow> (ev @ [Errorf (ErrorResolvingORAddress (f_target f) err)], info)
           | Inr orAddr \<Rightarrow>
               (let info1 = info\<lparr>OrAddr := Some orAddr\<rparr>;
                    info2 = (if f_authcookie f \<noteq> [] then info1\<lparr>AuthCookiePath := f_authcookie f\<rparr>
                             else info1) in
                if f_extorport f \<noteq> [] then
                  (case ResolveAddr w (f_extorport f) of
                     Inl err \<Rightarrow>
                       (ev @ [Errorf (ErrorResolvingExtendedORAddress (f_extorport f) err)], info2)
                   | Inr a \<Rightarrow> (ev, info2\<lparr>ExtendedOrAddr := Some a\<rparr>))
                else (ev, info2))))"

subsection \<open>main\<close>

text \<open>
  Lines 163 to 176 of \<open>main\<close>: the options file. The result is the events and the value
  of \<open>*options\<close> afterwards.
\<close>

definition read_optionsFile :: "'v env \<Rightarrow> flags \<Rightarrow> event list \<times> string" where
  "read_optionsFile w f =
     (if f_optionsFile f \<noteq> [] then
        (case Stat w (f_optionsFile f) of
           Some err \<Rightarrow>
             ([Println ''checking for optionsFile'',
               Errorf (OptionsFileDoesNotExist (f_optionsFile f) err)], f_options f)
         | None \<Rightarrow>
             (case ReadFile w (f_optionsFile f) of
                Inl readErr \<Rightarrow>
                  ([Println ''checking for optionsFile'',
                    Errorf (CouldNotOpenOptionsFile (f_optionsFile f))], f_options f)
              | Inr contents \<Rightarrow> ([Println ''checking for optionsFile''], contents)))
      else ([], f_options f))"

text \<open>
  Lines 178 to 298 of \<open>main\<close>: the validation of the remaining flags (\<open>main_run\<close>),
  the setup of the listeners (\<open>launch\<close>) and the end of the process (\<open>serve\<close>, from
  \<open>if !launched\<close> on). \<open>ev\<close> are the events so far, \<open>opts\<close> is \<open>*options\<close>.
  \<open>launched\<close> starts false and stays so when the mode is unsupported.
\<close>

definition serve :: "event list \<Rightarrow> bool \<Rightarrow> event list \<times> outcome" where
  "serve ev launched = (if \<not> launched then (ev, Exit (- 1)) else (ev, Serving))"

definition launch :: "'v env \<Rightarrow> flags \<Rightarrow> bool \<Rightarrow> string \<Rightarrow> string \<Rightarrow> int \<Rightarrow> event list \<Rightarrow> event list \<times> outcome" where
  "launch w f isClient stateDir opts mode ev =
     (if isClient then
        (if mode = socks5 \<or> mode = transparentTCP \<or> mode = transparentUDP \<or> mode = stunUDP then
           (case getClientNames w (f_transports f) (f_proxy f) of
              Inl nameErr \<Rightarrow> (ev @ [Errorf MustSpecifyVersionAndTransports], Return)
            | Inr (ptClientProxy, names) \<Rightarrow>
                serve (ev @ [CallClientSetup mode (f_proxylistenaddr f) ptClientProxy names opts])
                  (modeClientSetup w mode (f_proxylistenaddr f) ptClientProxy names opts))
         else serve (ev @ [Errorf (UnsupportedMode mode)]) False)
      else
        (if mode = socks5 \<or> mode = transparentTCP \<or> mode = transparentUDP \<or> mode = stunUDP then
           (case getServerInfo w f opts of
              (ev', ptServerInfo) \<Rightarrow>
                serve (ev @ ev' @ [CallServerSetup mode stateDir opts])
                  (modeServerSetup w mode ptServerInfo stateDir opts))
         else serve (ev @ [Errorf (UnsupportedMode mode)]) False))"

definition main_run :: "'v env \<Rightarrow> flags \<Rightarrow> bool \<Rightarrow> string \<Rightarrow> string \<Rightarrow> event list \<Rightarrow> event list \<times> outcome" where
  "main_run w f isClient stateDir opts ev =
     (case validatetarget w isClient (f_target f) of
        Some validationError \<Rightarrow> (ev @ [Errorf (ValidationError validationError)], Return)
      | None \<Rightarrow>
          (let mode = determineMode (f_transparent f) (f_udp f) in
           if isClient then
             (if f_target f \<noteq> [] then (ev @ [Errorf TargetInClientMode], Return)
              else launch w f isClient stateDir opts mode ev)
           else
             (if mode = socks5 \<or> mode = transparentTCP \<or> mode = transparentUDP \<or> mode = stunUDP then
                (if f_bindaddr f = [] then (ev @ [Errorf (RequiresBindaddr mode)], Return)
                 else launch w f isClient stateDir opts mode ev)
              else (ev @ [Errorf (UnsupportedMode mode)], Return))))"

text \<open>
  \<open>main\<close> from line 129 on. The log level is not modelled: an \<open>Errorf\<close> event is the
  call, whatever the level lets through.
\<close>

definition main :: "'v env \<Rightarrow> flags \<Rightarrow> event list \<times> outcome" where
  "main w f =
     (if f_showVersion f then ([PrintVersion], Exit 0)
      else
        (let ev0 = (case OpenLogFile w of Some logFileErr \<Rightarrow> [Println ''could open logFile'']
                    | None \<Rightarrow> []) in
         case checkIsClient (f_client f) (f_server f) of
           (isClient, Some err) \<Rightarrow> (ev0 @ [Usage, Fatalf NeedClientOrServer], Exit 1)
         | (isClient, None) \<Rightarrow>
             (case makeStateDir w (f_state f) of
                (stateDir, Some err) \<Rightarrow> (ev0 @ [Usage, Fatalf NoStateDirectory], Exit 1)
              | (stateDir, None) \<Rightarrow>
                  (if f_options f \<noteq> [] \<and> f_optionsFile f \<noteq> [] then
                     (ev0 @ [Fatalf OptionsAndOptionsFile], Exit 1)
                   else
                     (case read_optionsFile w f of
                        (ev1, opts) \<Rightarrow> main_run w f isClient stateDir opts (ev0 @ ev1))))))"

section \<open>Package pt_socks5\<close>

subsection \<open>Transport arguments\<close>

text \<open>
  \<open>pt.Args\<close> is a \<open>map[string][]string\<close>. \<open>Args.Get\<close> of the PT library returns the
  first value of a key and whether there is one.
\<close>

type_synonym Args = "string \<rightharpoonup> string list"

definition Args_Get :: "Args \<Rightarrow> string \<Rightarrow> string \<times> bool" where
  "Args_Get args key =
     (case args key of
        None \<Rightarrow> ([], False)
      | Some [] \<Rightarrow> ([], False)
      | Some (v # vals) \<Rightarrow> (v, True))"

text \<open>
  \<open>strconv.Atoi\<close> of the Go standard library, with a 64-bit \<open>int\<close>: an optional sign, then
  one or more decimal digits. A syntax error returns 0, a value out of range returns the
  nearest bound, each with its error.
\<close>

definition is_digit :: "char \<Rightarrow> bool" where
  "is_digit c = (48 \<le> (of_char c :: nat) \<and> (of_char c :: nat) \<le> 57)"

fun decimal :: "string \<Rightarrow> nat \<Rightarrow> nat" where
  "decimal [] n = n"
| "decimal (c # cs) n = decimal cs (n * 10 + ((of_char c :: nat) - 48))"

definition Atoi :: "string \<Rightarrow> int \<times> error option" where
  "Atoi s =
     (let neg = (case s of c # cs \<Rightarrow> c = CHR ''-'' | [] \<Rightarrow> False);
          body = (case s of c # cs \<Rightarrow> if c = CHR ''-'' \<or> c = CHR ''+'' then cs else s | [] \<Rightarrow> s) in
      if body = [] then (0, Some (ErrSyntax s))
      else if list_all is_digit body then
        (let n = int (decimal body 0);
             v = (if neg then - n else n) in
         if 2 ^ 63 - 1 < v then (2 ^ 63 - 1, Some (ErrRange s))
         else if v < - (2 ^ 63) then (- (2 ^ 63), Some (ErrRange s))
         else (v, None))
      else (0, Some (ErrSyntax s)))"

subsection \<open>Listeners and the state of a setup\<close>

text \<open>
  The transports a server can listen with, each with the arguments its constructor was
  given, and the listeners: a plain TCP listener of \<open>net.Listen\<close>, or the listener that
  \<open>transport.Listen(address)\<close> returns.
\<close>

datatype transport =
    Obfs2Transport
  | Obfs4Client string int
  | ReplicantTransport
  | DustServer string
  | MeekTransportWithFront string string
  | ShadowServer string string

datatype listener = TCPListener addr | TransportListener transport addr

text \<open>The lines written to the PT status protocol, and the lines logged or printed.\<close>

datatype ptline = CmethodError string error | Cmethod string listener | CmethodsDone | SmethodsDone

datatype setup_log =
    ErrorParsingTransportOptions string
  | Obfs4BadIatMode "string list"      \<comment> \<open>obfs4 transport bad iat-mode value\<close>
  | Obfs4MissingCertArgument           \<comment> \<open>obfs4 transport missing cert argument\<close>
  | UnknownTransport string
  | Printed string

text \<open>
  What a setup routine has done and what it returns: the named results \<open>launched\<close>
  and \<open>listeners\<close>, the accept loops started with \<open>go\<close> (which keep running whatever is
  returned), and the lines written.
\<close>

record setup_state =
  launched :: bool
  listeners :: "listener list"
  acceptLoops :: "(string \<times> listener) list"
  ptlines :: "ptline list"
  logged :: "setup_log list"

definition setup_init :: setup_state where
  "setup_init = \<lparr>launched = False, listeners = [], acceptLoops = [], ptlines = [], logged = []\<rparr>"

subsection \<open>ClientSetup\<close>

text \<open>
  \<open>net.Listen("tcp", socksAddr)\<close> is a parameter: its result at the \<open>i\<close>-th call of the
  loop. The loop runs over \<open>names\<close>; a failed bind writes \<open>CmethodError\<close> and continues.
\<close>

fun ClientSetup_loop ::
  "(nat \<Rightarrow> string \<Rightarrow> error + listener) \<Rightarrow> string \<Rightarrow> nat \<Rightarrow> string list \<Rightarrow> setup_state \<Rightarrow> setup_state" where
  "ClientSetup_loop netListen socksAddr i [] st = st\<lparr>ptlines := ptlines st @ [CmethodsDone]\<rparr>"
| "ClientSetup_loop netListen socksAddr i (name # names) st =
     (case netListen i socksAddr of
        Inl err \<Rightarrow>
          ClientSetup_loop netListen socksAddr (Suc i) names
            (st\<lparr>ptlines := ptlines st @ [CmethodError name err]\<rparr>)
      | Inr ln \<Rightarrow>
          ClientSetup_loop netListen socksAddr (Suc i) names
            (st\<lparr>acceptLoops := acceptLoops st @ [(name, ln)],
                ptlines := ptlines st @ [Cmethod name ln],
                listeners := listeners st @ [ln],
                launched := True\<rparr>))"

definition ClientSetup ::
  "(nat \<Rightarrow> string \<Rightarrow> error + listener) \<Rightarrow> string \<Rightarrow> url option \<Rightarrow> string list \<Rightarrow> string \<Rightarrow> setup_state" where
  "ClientSetup netListen socksAddr ptClientProxy names opts =
     ClientSetup_loop netListen socksAddr 0 names setup_init"

subsection \<open>ServerSetup\<close>

text \<open>
  The \<open>switch name\<close> of the loop body of \<open>ServerSetup\<close>: either \<open>listen\<close> is bound to the
  \<open>Listen\<close> of a transport, or the function returns: a bare \<open>return\<close> (the named results
  as they are) after \<open>log.Errorf\<close>, or \<open>return false, nil\<close>; \<open>cert[0]\<close> and
  \<open>iatModeStr[0]\<close> panic on an empty slice. In the obfs4 case, \<open>err != nil\<close> is the
  branch that builds the transport.
\<close>

datatype resolution =
    Bound transport "setup_log list"
  | BareReturn setup_log
  | ReturnFalseNil "setup_log list"
  | IndexPanic

definition switch_name :: "string \<Rightarrow> Args \<Rightarrow> resolution" where
  "switch_name name args =
     (if name = ''obfs2'' then Bound Obfs2Transport []
      else if name = ''obfs4'' then
        (case args ''cert'' of
           Some cert \<Rightarrow>
             (case args ''iat-mode'' of
                Some iatModeStr \<Rightarrow>
                  (case iatModeStr of
                     [] \<Rightarrow> IndexPanic
                   | s # ss \<Rightarrow>
                       (case Atoi s of
                          (iatMode, Some err) \<Rightarrow>
                            (case cert of
                               [] \<Rightarrow> IndexPanic
                             | c # cs \<Rightarrow> Bound (Obfs4Client c iatMode) [])
                        | (iatMode, None) \<Rightarrow> BareReturn (Obfs4BadIatMode iatModeStr)))
              | None \<Rightarrow> BareReturn Obfs4MissingCertArgument)
         | None \<Rightarrow> BareReturn Obfs4MissingCertArgument)
      else if name = ''replicant'' then
        (case Args_Get args ''config'' of
           (config, ok) \<Rightarrow>
             if \<not> ok then ReturnFalseNil [Printed config]
             else Bound ReplicantTransport [Printed config])
      else if name = ''Dust'' then
        (case Args_Get args ''idPath'' of
           (idPath, ok) \<Rightarrow> if \<not> ok then ReturnFalseNil [] else Bound (DustServer idPath) [])
      else if name = ''meeklite'' then
        (case Args_Get args ''Url'' of
           (Url, ok) \<Rightarrow>
             if \<not> ok then ReturnFalseNil []
             else (case Args_Get args ''Front'' of
                     (Front, ok2) \<Rightarrow>
                       if \<not> ok2 then ReturnFalseNil []
                       else Bound (MeekTransportWithFront Url Front) []))
      else if name = ''shadow'' then
        (case Args_Get args ''password'' of
           (password, ok) \<Rightarrow>
             if \<not> ok then ReturnFalseNil []
             else (case Args_Get args ''cipherName'' of
                     (cipherName, ok2) \<Rightarrow>
                       if \<not> ok2 then ReturnFalseNil []
                       else Bound (ShadowServer password cipherName) []))
      else BareReturn (UnknownTransport name))"

text \<open>
  The loop of \<open>ServerSetup\<close> over \<open>ptServerInfo.Bindaddrs\<close>.
  \<open>pt.ParsePT2ClientParameters\<close> is a parameter, called in every iteration. A panic ends
  the process. \<open>pt.SmethodsDone()\<close> is reached only when the loop runs to its end.
\<close>

datatype 'a run = Panic | Returns 'a

fun ServerSetup_loop ::
  "(string \<Rightarrow> error + Args) \<Rightarrow> string \<Rightarrow> 'v Bindaddr list \<Rightarrow> setup_state \<Rightarrow> setup_state run" where
  "ServerSetup_loop parsePT2ClientParameters opts [] st =
     Returns (st\<lparr>ptlines := ptlines st @ [SmethodsDone]\<rparr>)"
| "ServerSetup_loop parsePT2ClientParameters opts (bindaddr # bindaddrs) st =
     (case parsePT2ClientParameters opts of
        Inl argsErr \<Rightarrow> Returns (st\<lparr>logged := logged st @ [ErrorParsingTransportOptions opts]\<rparr>)
      | Inr args \<Rightarrow>
          (case switch_name (MethodName bindaddr) args of
             Bound t lg \<Rightarrow>
               (let transportLn = TransportListener t (Addr bindaddr) in
                ServerSetup_loop parsePT2ClientParameters opts bindaddrs
                  (st\<lparr>acceptLoops := acceptLoops st @ [(MethodName bindaddr, transportLn)],
                      logged := logged st @ lg,
                      listeners := listeners st @ [transportLn],
                      launched := True\<rparr>))
           | BareReturn m \<Rightarrow> Returns (st\<lparr>logged := logged st @ [m]\<rparr>)
           | ReturnFalseNil lg \<Rightarrow>
               Returns (st\<lparr>logged := logged st @ lg, launched := False, listeners := []\<rparr>)
           | IndexPanic \<Rightarrow> Panic))"

definition ServerSetup ::
  "(string \<Rightarrow> error + Args) \<Rightarrow> 'v ServerInfo \<Rightarrow> string \<Rightarrow> setup_state run" where
  "ServerSetup parsePT2ClientParameters ptServerInfo opts =
     ServerSetup_loop parsePT2ClientParameters opts (Bindaddrs ptServerInfo) setup_init"

subsection \<open>Accept loops\<close>

text \<open>
  What \<open>ln.Accept()\<close> returns, one value per call: a connection, or an error with the
  result of the type assertion \<open>err.(net.Error)\<close> and of \<open>Temporary()\<close>. An accept loop
  is run on the finite sequence of the results so far; at the end of the sequence the
  loop is blocked in \<open>Accept\<close> and still running.
\<close>

datatype accepted = Conn nat | AcceptError bool bool

datatype loop_log = ServerAcceptLoopFailed   \<comment> \<open>the text is \<open>serverAcceptLoop failed\<close>\<close>

record loop_state =
  running :: bool
  listenerOpen :: bool
  handlers :: "nat list"
  loopLog :: "loop_log list"

definition loop0 :: loop_state where
  "loop0 = \<lparr>running = True, listenerOpen = True, handlers = [], loopLog = []\<rparr>"

fun clientAcceptLoop :: "accepted list \<Rightarrow> loop_state \<Rightarrow> loop_state" where
  "clientAcceptLoop [] st = st"
| "clientAcceptLoop (Conn c # rs) st = clientAcceptLoop rs (st\<lparr>handlers := handlers st @ [c]\<rparr>)"
| "clientAcceptLoop (AcceptError isNetError temporary # rs) st =
     (if isNetError \<and> \<not> temporary
      then st\<lparr>loopLog := loopLog st @ [ServerAcceptLoopFailed], listenerOpen := False,
              running := False\<rparr>
      else clientAcceptLoop rs st)"

fun serverAcceptLoop :: "accepted list \<Rightarrow> loop_state \<Rightarrow> loop_state" where
  "serverAcceptLoop [] st = st"
| "serverAcceptLoop (Conn c # rs) st = serverAcceptLoop rs (st\<lparr>handlers := handlers st @ [c]\<rparr>)"
| "serverAcceptLoop (AcceptError isNetError temporary # rs) st =
     (if isNetError \<and> \<not> temporary
      then st\<lparr>running := False\<rparr>
      else serverAcceptLoop rs st)"

subsection \<open>copyLoop\<close>

text \<open>
  A connection, as one run sees it. Its read side delivers the chunks \<open>incoming\<close> and
  then ends: with end-of-stream (the peer closed), with a read error, or not at all
  (\<open>Idle\<close>: the peer sends nothing more and does not close, so \<open>Read\<close> blocks for ever).
  Its write side either takes every write or fails every write with \<open>writeError\<close>.
  Nothing in \<open>copyLoop\<close> or its callers closes a connection, so the two sides of a run
  do not change each other.
\<close>

datatype ending = EOF | ReadError error | Idle

record conn =
  incoming :: "string list"
  ending :: ending
  writeError :: "error option"

text \<open>
  \<open>io.Copy(dst, src)\<close> of the Go standard library, by the chunks still to be read from
  \<open>src\<close>: it returns the first write or read error, \<open>nil\<close> at end-of-stream. The outer
  \<open>None\<close> is a call that never returns.
\<close>

fun copy_chunks :: "error option \<Rightarrow> string list \<Rightarrow> ending \<Rightarrow> error option option" where
  "copy_chunks werr [] EOF = Some None"
| "copy_chunks werr [] (ReadError e) = Some (Some e)"
| "copy_chunks werr [] Idle = None"
| "copy_chunks werr (c # cs) fin =
     (case werr of Some e \<Rightarrow> Some (Some e) | None \<Rightarrow> copy_chunks werr cs fin)"

definition io_Copy :: "conn \<Rightarrow> conn \<Rightarrow> error option option" where
  "io_Copy dst src = copy_chunks (writeError dst) (incoming src) (ending src)"

text \<open>
  \<open>copyLoop\<close> starts the two copies, each sending its error to \<open>errChan\<close> (buffered for
  two), and waits for both in \<open>wg.Wait()\<close>; it then returns the first value in the
  channel. Which copy sends first is the scheduler's choice: the parameter
  \<open>aToBFirst\<close>. \<open>None\<close>: \<open>wg.Wait()\<close> never returns.
\<close>

definition copyLoop :: "conn \<Rightarrow> conn \<Rightarrow> bool \<Rightarrow> error option option" where
  "copyLoop a b aToBFirst =
     (case io_Copy b a of
        None \<Rightarrow> None
      | Some errAB \<Rightarrow>
          (case io_Copy a b of
             None \<Rightarrow> None
           | Some errBA \<Rightarrow> Some (if aToBFirst then errAB else errBA)))"

subsection \<open>clientHandler\<close>

text \<open>
  The reply codes of the SOCKS5 front-end (RFC 1928), and what a handler does that can be
  seen from outside, in order: log lines, replies to the SOCKS client, the relay, and
  the closing of a connection.
\<close>

datatype reply_code =
    ReplySucceeded
  | ReplyGeneralFailure
  | ReplyConnectionNotAllowed
  | ReplyNetworkUnreachable
  | ReplyHostUnreachable
  | ReplyConnectionRefused
  | ReplyTTLExpired
  | ReplyCommandNotSupported
  | ReplyAddressNotSupported

datatype handler_log =
    ClientFailedSocksHandshake error
  | ErrorParsingTransportOptionsOf string
  | FailedToObtainProxyDialer "error option"
  | OutgoingConnectionFailed "error option"
  | SocksReplyFailed error
  | ClosedConnection "error option"

datatype handler_event =
    Log handler_log
  | Reply reply_code
  | RelayEntered
  | RelayReturned "error option"
  | Closed

datatype handler_end = Returned | InRelayForEver | NilTransportPanic

text \<open>
  What \<open>clientHandler\<close> asks of the packages that are not in the source at hand and of
  the network, for one connection:
  \<^item> \<open>Handshake\<close>: \<open>socks5.Handshake(conn, needOptions)\<close>, giving the target;
  \<^item> \<open>ParseOptions\<close>: \<open>options2.ParseOptions\<close>;
  \<^item> \<open>ArgsToDialer\<close>: the transport of \<open>pt_extras.ArgsToDialer\<close> (its error is dropped
    by the handler), \<open>None\<close> for a \<open>nil\<close> transport, otherwise what its \<open>Dial()\<close> returns;
  \<^item> \<open>FromURL\<close>: the error of \<open>proxy.FromURL\<close>;
  \<^item> \<open>ReplyResult\<close>: the error of \<open>socksReq.Reply(code)\<close>;
  \<^item> \<open>ErrorToReplyCode\<close>: \<open>socks5.ErrorToReplyCode\<close>;
  \<^item> \<open>aToBFirst\<close>: the scheduler's choice in \<open>copyLoop\<close>.
\<close>

record handler_env =
  Handshake :: "bool \<Rightarrow> error + string"
  ParseOptions :: "string \<Rightarrow> error + Args"
  ArgsToDialer :: "string \<Rightarrow> string \<Rightarrow> Args \<Rightarrow> (error + conn) option"
  FromURL :: "url \<Rightarrow> error option"
  ReplyResult :: "reply_code \<Rightarrow> error option"
  ErrorToReplyCode :: "error option \<Rightarrow> reply_code"
  aToBFirst :: bool

text \<open>
  \<open>clientHandler\<close>. The variable \<open>err\<close> is set by the handshake and is \<open>nil\<close> after it;
  the error of the dial is \<open>err2\<close>, and the log line and the reply after a failed dial
  are made from \<open>err\<close>. The result of the failure replies is dropped (\<open>_ =\<close>). The
  \<open>fmt.Println\<close> of the dialer is left out. The function has no \<open>Close\<close> call, so it
  never makes the event \<open>Closed\<close>.
\<close>

definition clientHandler ::
  "handler_env \<Rightarrow> string \<Rightarrow> conn \<Rightarrow> url option \<Rightarrow> string \<Rightarrow> handler_event list \<times> handler_end" where
  "clientHandler h name c proxyURI opts =
     (let needOptions = (opts = []) in
      case Handshake h needOptions of
        Inl err \<Rightarrow> ([Log (ClientFailedSocksHandshake err)], Returned)
      | Inr target \<Rightarrow>
          (let err = (None :: error option) in
           case ParseOptions h opts of
             Inl argsErr \<Rightarrow> ([Log (ErrorParsingTransportOptionsOf opts)], Returned)
           | Inr args \<Rightarrow>
               (let transport = ArgsToDialer h target name args in
                case (case proxyURI of None \<Rightarrow> None | Some u \<Rightarrow> FromURL h u) of
                  Some proxyErr \<Rightarrow>
                    ([Log (FailedToObtainProxyDialer err), Reply ReplyGeneralFailure], Returned)
                | None \<Rightarrow>
                    (case transport of
                       None \<Rightarrow> ([], NilTransportPanic)
                     | Some (Inl err2) \<Rightarrow>
                         ([Log (OutgoingConnectionFailed err), Reply (ErrorToReplyCode h err)],
                          Returned)
                     | Some (Inr remote) \<Rightarrow>
                         (case ReplyResult h ReplySucceeded of
                            Some err' \<Rightarrow>
                              ([Reply ReplySucceeded, Log (SocksReplyFailed err')], Returned)
                          | None \<Rightarrow>
                              (case copyLoop c remote (aToBFirst h) of
                                 None \<Rightarrow> ([Reply ReplySucceeded, RelayEntered], InRelayForEver)
                               | Some err' \<Rightarrow>
                                   ([Reply ReplySucceeded, RelayEntered, RelayReturned err',
                                     Log (ClosedConnection err')], Returned)))))))"

section \<open>Sample inputs\<close>

text \<open>
  A concrete environment and command line on which the theorems below are instantiated:
  a client in transparent TCP mode; the state directory \<open>/proc/state\<close> cannot be made,
  the file \<open>missing.json\<close> does not exist and \<open>unreadable.json\<close> cannot be read.
\<close>

definition demo_env :: "string env" where
  "demo_env =
     \<lparr>OpenLogFile = None,
      MkdirAll = (\<lambda>p. if p = ''/proc/state'' then Some (External ''permission denied'') else None),
      MakeStateDir = (''pt_state'', None),
      Stat = (\<lambda>p. if p = ''missing.json'' then Some (External ''no such file or directory'')
                   else None),
      ReadFile = (\<lambda>p. if p = ''unreadable.json'' then Inl (External ''permission denied'')
                       else Inr ''password=p''),
      validatetarget = (\<lambda>isClient t. None),
      Transports = [''obfs2'', ''obfs4'', ''shadow''],
      PtGetProxy = (\<lambda>p. Inr None),
      ParsePT2ServerParameters = (\<lambda>s. Inr Map.empty),
      ResolveAddr = (\<lambda>s. Inr s),
      modeClientSetup = (\<lambda>mode a p names opts. True),
      modeServerSetup = (\<lambda>mode info stateDir opts. True)\<rparr>"

definition demo_flags :: flags where
  "demo_flags =
     \<lparr>f_ptversion = ''2.1'', f_state = ''state'', f_exitOnStdinClose = False,
      f_transports = ''shadow'', f_proxy = [], f_options = [], f_bindaddr = [],
      f_extorport = [], f_authcookie = [], f_proxylistenaddr = ''127.0.0.1:1443'',
      f_optionsFile = [], f_showVersion = False, f_client = True, f_server = False,
      f_transparent = True, f_udp = False, f_target = []\<rparr>"

text \<open>
  Transport arguments, bind addresses and a server configuration for \<open>ServerSetup\<close>:
  the parser of the options string is a parameter, here one that returns no arguments
  and one that returns a certificate and an \<open>iat-mode\<close> for obfs4.
\<close>

definition no_args :: "string \<Rightarrow> error + Args" where
  "no_args s = Inr Map.empty"

definition obfs4_args :: "string \<Rightarrow> string \<Rightarrow> error + Args" where
  "obfs4_args iat s = Inr [''cert'' \<mapsto> [''AAAA''], ''iat-mode'' \<mapsto> [iat]]"

definition obfs2_bindaddr :: "unit Bindaddr" where
  "obfs2_bindaddr = \<lparr>MethodName = ''obfs2'', Addr = ''127.0.0.1:2221'', Options = None\<rparr>"

definition shadow_bindaddr :: "unit Bindaddr" where
  "shadow_bindaddr = \<lparr>MethodName = ''shadow'', Addr = ''127.0.0.1:2222'', Options = None\<rparr>"

definition obfs4_bindaddr :: "unit Bindaddr" where
  "obfs4_bindaddr = \<lparr>MethodName = ''obfs4'', Addr = ''127.0.0.1:2223'', Options = None\<rparr>"

definition serverInfo :: "unit Bindaddr list \<Rightarrow> unit ServerInfo" where
  "serverInfo bs = \<lparr>Bindaddrs = bs, OrAddr = Some ''127.0.0.1:3333'', ExtendedOrAddr = None,
                    AuthCookiePath = []\<rparr>"

text \<open>
  An accept result is permanent when it is a \<open>net.Error\<close> that is not temporary: the
  test of both accept loops.
\<close>

fun permanent :: "accepted \<Rightarrow> bool" where
  "permanent (AcceptError isNetError temporary) = (isNetError \<and> \<not> temporary)"
| "permanent (Conn c) = False"

text \<open>
  Connections: one whose peer has closed (end-of-stream at once), one whose peer stays
  silent and open, one that delivers a chunk and then fails. A handler environment
  where the handshake, the options and the success reply work, the transport's
  \<open>Dial()\<close> returns \<open>dial\<close>, and the reply code follows the error.
\<close>

definition closed_conn :: conn where
  "closed_conn = \<lparr>incoming = [], ending = EOF, writeError = None\<rparr>"

definition idle_conn :: conn where
  "idle_conn = \<lparr>incoming = [], ending = Idle, writeError = None\<rparr>"

definition reset_conn :: conn where
  "reset_conn = \<lparr>incoming = [''GET /''], ending = ReadError (External ''connection reset by peer''),
                  writeError = None\<rparr>"

definition demo_handler :: "(error + conn) \<Rightarrow> handler_env" where
  "demo_handler dial =
     \<lparr>Handshake = (\<lambda>needOptions. Inr ''example.com:443''),
      ParseOptions = (\<lambda>s. Inr Map.empty),
      ArgsToDialer = (\<lambda>target name args. Some dial),
      FromURL = (\<lambda>u. None),
      ReplyResult = (\<lambda>code. None),
      ErrorToReplyCode = (\<lambda>e. if e = Some (External ''connection refused'') then ReplyConnectionRefused
                               else if e = Some (External ''no route to host'') then ReplyHostUnreachable
                               else ReplyGeneralFailure),
      aToBFirst = True\<rparr>"

text \<open>The events that call a setup routine: no listener is opened before one of them.\<close>

fun is_setup_call :: "event \<Rightarrow> bool" where
  "is_setup_call (CallClientSetup m a p ns opts) = True"
| "is_setup_call (CallServerSetup m sd opts) = True"
| "is_setup_call e = False"

section \<open>Mode selection and role selection\<close>

text \<open>
  C5. Mode selection is a total function of the two booleans with no error result:
  (false, false) gives socks5 (SocksAware), (true, false) gives transparentTCP,
  (false, true) gives stunUDP (StunAware) and (true, true) gives transparentUDP; the four
  modes are distinct constants.
\<close>

theorem determineMode_table:
  "determineMode False False = socks5 \<and>
   determineMode True False = transparentTCP \<and>
   determineMode False True = stunUDP \<and>
   determineMode True True = transparentUDP \<and>
   distinct [socks5, transparentTCP, stunUDP, transparentUDP]"
  by (simp add: determineMode_def socks5_def transparentTCP_def stunUDP_def transparentUDP_def)

subsection \<open>No fatal log call after the options are read\<close>

lemma getServerInfo_nofatal: "Fatalf x \<notin> set (fst (getServerInfo w f opts))"
proof -
  obtain lg r where g: "getServerBindaddrs (ParsePT2ServerParameters w) (ResolveAddr w)
             (f_bindaddr f) opts (Some (f_transports f)) = (lg, r)"
    by (cases "getServerBindaddrs (ParsePT2ServerParameters w) (ResolveAddr w)
             (f_bindaddr f) opts (Some (f_transports f))") 
  have lg: "Fatalf x \<notin> set (map (Errorf \<circ> BindaddrLog) lg)" by auto
  show ?thesis
    unfolding getServerInfo_def g using lg
    by (cases r) (simp_all add: Let_def split: sum.splits)
qed

lemma fst_serve: "fst (serve ev l) = ev"
  by (simp add: serve_def)

lemma nofatal_launch:
  "Fatalf x \<notin> set ev \<Longrightarrow> Fatalf x \<notin> set (fst (launch w f c sd opts m ev))"
proof -
  assume ev: "Fatalf x \<notin> set ev"
  obtain ev' info where gs: "getServerInfo w f opts = (ev', info)"
    by (cases "getServerInfo w f opts")
  have ev': "Fatalf x \<notin> set ev'"
    using getServerInfo_nofatal[of x w f opts] gs by simp
  show ?thesis
    unfolding launch_def gs using ev ev'
    by (cases "getClientNames w (f_transports f) (f_proxy f)") (auto simp: fst_serve)
qed

lemma nofatal_main_run:
  "Fatalf x \<notin> set ev \<Longrightarrow> Fatalf x \<notin> set (fst (main_run w f c sd opts ev))"
  unfolding main_run_def
  by (simp add: Let_def nofatal_launch split: option.splits)

lemma read_optionsFile_nofatal: "Fatalf x \<notin> set (fst (read_optionsFile w f))"
  unfolding read_optionsFile_def by (simp split: option.splits sum.splits)

text \<open>
  C9. For all four combinations of the \<open>-client\<close> and \<open>-server\<close> booleans
  \<open>checkIsClient\<close> returns no error: neither flag gives client mode, both flags give
  client mode. So \<open>main\<close> never makes the fatal log call "either --client or --server
  is required", whatever the environment and the command line.
\<close>

theorem checkIsClient_total:
  "checkIsClient False False = (True, None) \<and>
   checkIsClient True False = (True, None) \<and>
   checkIsClient False True = (False, None) \<and>
   checkIsClient True True = (True, None) \<and>
   (\<forall>w f. Fatalf NeedClientOrServer \<notin> set (fst (main w f)))"
proof -
  have "Fatalf NeedClientOrServer \<notin> set (fst (main w f))" for w :: "'a env" and f
  proof (cases "f_showVersion f")
    case True
    then show ?thesis by (simp add: main_def)
  next
    case False
    obtain c where ck: "checkIsClient (f_client f) (f_server f) = (c, None)"
      by (cases "f_client f"; cases "f_server f"; simp add: checkIsClient_def)
    obtain sd e where ms: "makeStateDir w (f_state f) = (sd, e)"
      by (cases "makeStateDir w (f_state f)")
    obtain ev1 opts where ro: "read_optionsFile w f = (ev1, opts)"
      by (cases "read_optionsFile w f")
    have ev1: "Fatalf NeedClientOrServer \<notin> set ev1"
      using read_optionsFile_nofatal[of NeedClientOrServer w f] ro by simp
    have run: "Fatalf NeedClientOrServer \<notin> set (fst (main_run w f c sd opts (ev0 @ ev1)))"
      if "Fatalf NeedClientOrServer \<notin> set ev0" for ev0
      using that ev1 by (intro nofatal_main_run) simp
    show ?thesis
      using False run
      unfolding main_def ck ms ro
      by (cases e) (simp_all add: Let_def split: option.splits)
  qed
  then show ?thesis by (simp add: checkIsClient_def)
qed

section \<open>The options string and the options file\<close>

text \<open>
  C7, as stated, fails: with \<open>-showVersion\<close> the process prints its version and exits
  with code 0, although both \<open>-options\<close> and \<open>-optionsFile\<close> are given.
\<close>

theorem options_conflict_counterexample:
  "f_options (demo_flags\<lparr>f_options := ''password=p'', f_optionsFile := ''shadow.json'', f_showVersion := True\<rparr>) \<noteq> [] \<and>
   f_optionsFile (demo_flags\<lparr>f_options := ''password=p'', f_optionsFile := ''shadow.json'', f_showVersion := True\<rparr>) \<noteq> [] \<and>
   main demo_env (demo_flags\<lparr>f_options := ''password=p'', f_optionsFile := ''shadow.json'', f_showVersion := True\<rparr>)
     = ([PrintVersion], Exit 0)"
  by (simp add: main_def demo_flags_def)

text \<open>
  C7, amended. When both a non-empty \<open>-options\<close> string and a non-empty \<open>-optionsFile\<close>
  path are given, no setup routine is ever called (no listener is opened), and the
  process ends: with \<open>-showVersion\<close> it prints the version and exits with 0; otherwise it
  exits with 1 after a fatal log call, which is the \<open>-options\<close>/\<open>-optionsFile\<close>
  conflict when the state directory could be made and the state-directory error when
  it could not.
\<close>

theorem options_conflict_is_fatal:
  assumes "f_options f \<noteq> []" and "f_optionsFile f \<noteq> []"
  shows "(if f_showVersion f then main w f = ([PrintVersion], Exit 0)
          else snd (main w f) = Exit 1 \<and>
               last (fst (main w f)) =
                 Fatalf (if snd (makeStateDir w (f_state f)) = None then OptionsAndOptionsFile
                         else NoStateDirectory)) \<and>
         list_all (\<lambda>e. \<not> is_setup_call e) (fst (main w f))"
proof (cases "f_showVersion f")
  case True
  then show ?thesis by (simp add: main_def)
next
  case False
  obtain c where ck: "checkIsClient (f_client f) (f_server f) = (c, None)"
    by (cases "f_client f"; cases "f_server f"; simp add: checkIsClient_def)
  obtain sd e where ms: "makeStateDir w (f_state f) = (sd, e)"
    by (cases "makeStateDir w (f_state f)")
  show ?thesis
    using False assms unfolding main_def ck ms
    by (cases e; cases "OpenLogFile w") (simp_all add: Let_def)
qed

theorem options_conflict_is_fatal_witness:
  "f_options (demo_flags\<lparr>f_options := ''password=p'', f_optionsFile := ''shadow.json''\<rparr>) \<noteq> [] \<and>
   f_optionsFile (demo_flags\<lparr>f_options := ''password=p'', f_optionsFile := ''shadow.json''\<rparr>) \<noteq> [] \<and>
   main demo_env (demo_flags\<lparr>f_options := ''password=p'', f_optionsFile := ''shadow.json''\<rparr>)
     = ([Fatalf OptionsAndOptionsFile], Exit 1) \<and>
   main demo_env (demo_flags\<lparr>f_options := ''password=p'', f_optionsFile := ''shadow.json'', f_state := ''/proc/state''\<rparr>)
     = ([Usage, Fatalf NoStateDirectory], Exit 1)"
proof -
  let ?f = "demo_flags\<lparr>f_options := ''password=p'', f_optionsFile := ''shadow.json''\<rparr>"
  let ?g = "demo_flags\<lparr>f_options := ''password=p'', f_optionsFile := ''shadow.json'', f_state := ''/proc/state''\<rparr>"
  have h1: "f_options ?f \<noteq> []" and h2: "f_optionsFile ?f \<noteq> []" by simp_all
  have g1: "f_options ?g \<noteq> []" and g2: "f_optionsFile ?g \<noteq> []" by simp_all
  have nv: "\<not> f_showVersion ?f" "\<not> f_showVersion ?g" by (simp_all add: demo_flags_def)
  have m: "main demo_env ?f = ([Fatalf OptionsAndOptionsFile], Exit 1)"
    by (simp add: main_def demo_flags_def demo_env_def checkIsClient_def makeStateDir_def)
  have m2: "main demo_env ?g = ([Usage, Fatalf NoStateDirectory], Exit 1)"
    by (simp add: main_def demo_flags_def demo_env_def checkIsClient_def makeStateDir_def)
  show ?thesis
    using options_conflict_is_fatal [OF h1 h2, of demo_env]
          options_conflict_is_fatal [OF g1 g2, of demo_env] nv m m2 h1 h2
    by simp
qed




section \<open>Bind addresses\<close>

text \<open>
  The loop of \<open>getServerBindaddrs\<close> on a list of entries: well-formed entries add their
  BindSpecs in order; the first entry that is not well formed ends the loop with its
  error.
\<close>

lemma Split_no_sep: "sep \<notin> set s \<Longrightarrow> Split s sep = [s]"
  by (induction s) auto

lemma SplitN_2_no_sep: "sep \<notin> set s \<Longrightarrow> SplitN s sep 2 = [s]"
  by (simp add: numeral_2_eq_2)

lemma SplitN_2_sep:
  "sep \<notin> set name \<Longrightarrow> SplitN (name @ sep # rest) sep 2 = [name, rest]"
proof -
  assume n: "sep \<notin> set name"
  have t: "takeWhile (\<lambda>c. c \<noteq> sep) (name @ sep # rest) = name"
    using n by (induction name) auto
  have d: "dropWhile (\<lambda>c. c \<noteq> sep) (name @ sep # rest) = sep # rest"
    using n by (induction name) auto
  show ?thesis by (simp add: numeral_2_eq_2 t d)
qed

lemma bindaddr_loop_step:
  assumes "entry_ok resolveAddr e"
  shows "bindaddr_loop resolveAddr optionsMap (entry_text e # specs) result =
         bindaddr_loop resolveAddr optionsMap specs (result @ [entry_bindaddr optionsMap e])"
proof -
  obtain name hostport a where e: "e = (name, hostport, a)" by (cases e)
  have parts: "SplitN (name @ CHR ''-'' # hostport) CHR ''-'' 2 = [name, hostport]"
    using assms e SplitN_2_sep[of "CHR ''-''" name hostport] by simp
  show ?thesis using assms by (simp add: e parts)
qed

lemma bindaddr_loop_well_formed:
  "list_all (entry_ok resolveAddr) es \<Longrightarrow>
   bindaddr_loop resolveAddr optionsMap (map entry_text es) result =
     Inr (result @ map (entry_bindaddr optionsMap) es)"
proof (induction es arbitrary: result)
  case Nil
  then show ?case by simp
next
  case (Cons e es)
  then have ok: "entry_ok resolveAddr e" and rest: "list_all (entry_ok resolveAddr) es"
    by simp_all
  show ?case
    using bindaddr_loop_step[OF ok, of optionsMap "map entry_text es" result] Cons.IH[OF rest]
    by simp
qed

lemma bindaddr_loop_no_dash:
  "list_all (entry_ok resolveAddr) es \<Longrightarrow> CHR ''-'' \<notin> set spec \<Longrightarrow>
   bindaddr_loop resolveAddr optionsMap (map entry_text es @ spec # rest) result =
     Inl (BindaddrNoDash spec)"
proof (induction es arbitrary: result)
  case Nil
  then show ?case by (simp add: SplitN_2_no_sep)
next
  case (Cons e es)
  then have ok: "entry_ok resolveAddr e" and rest': "list_all (entry_ok resolveAddr) es"
    by simp_all
  show ?case
    using bindaddr_loop_step[OF ok, of optionsMap "map entry_text es @ spec # rest" result]
      Cons.IH[OF rest' Cons.prems(2)]
    by simp
qed

lemma bindaddr_loop_unresolved:
  "list_all (entry_ok resolveAddr) es \<Longrightarrow> CHR ''-'' \<notin> set name \<Longrightarrow>
   resolveAddr hostport = Inl err \<Longrightarrow>
   bindaddr_loop resolveAddr optionsMap (map entry_text es @ (name @ ''-'' @ hostport) # rest) result =
     Inl (BindaddrError (name @ ''-'' @ hostport) err)"
proof (induction es arbitrary: result)
  case Nil
  have parts: "SplitN (name @ CHR ''-'' # hostport) CHR ''-'' 2 = [name, hostport]"
    using Nil.prems(2) SplitN_2_sep[of "CHR ''-''" name hostport] by simp
  show ?case using Nil.prems(3) by (simp add: parts)
next
  case (Cons e es)
  then have ok: "entry_ok resolveAddr e" and rest': "list_all (entry_ok resolveAddr) es"
    by simp_all
  show ?case
    using bindaddr_loop_step[OF ok, of optionsMap
        "map entry_text es @ (name @ ''-'' @ hostport) # rest" result]
      Cons.IH[OF rest' Cons.prems(2) Cons.prems(3)]
    by simp
qed

text \<open>
  C6, as stated, fails: a well-formed entry whose name is not among \<open>-transports\<close> yields
  no BindSpec (an empty result and the log line "no valid bindaddrs"), and with an
  options string that does not parse, an entry without \<open>-\<close> is never looked at: the
  error is that of the options and does not carry the entry.
\<close>

theorem getServerBindaddrs_counterexample:
  "getServerBindaddrs (\<lambda>s. Inr (Map.empty :: string \<rightharpoonup> (string \<rightharpoonup> unit))) (\<lambda>s. Inr s)
     ''shadow-127.0.0.1:2222'' [] (Some ''obfs2'') = ([NoValidBindaddrs], Inr []) \<and>
   getServerBindaddrs (\<lambda>s. Inl (External ''unexpected end of JSON input'')) (\<lambda>s. Inr s)
     ''shadow127.0.0.1:2222'' ''{'' (Some ''shadow'') =
     ([ErrorParsingOptionsMap ''{'' (External ''unexpected end of JSON input'')],
      (Inl (OptionsError ''{'' (External ''unexpected end of JSON input''))
         :: error + unit Bindaddr list))"
  by (simp add: getServerBindaddrs_def FilterBindaddrs_def numeral_2_eq_2)

text \<open>
  C6, amended. When the options string is empty or parses, and the entries of the
  \<open>-bindaddr\<close> list are all well-formed \<open>name-host:port\<close>, \<open>getServerBindaddrs\<close> returns, in
  order, the BindSpecs of the entries whose name is among \<open>-transports\<close>, each with the
  part before the separator as transport name, the resolved \<open>host:port\<close> as address and
  the options of its name (and logs "no valid bindaddrs" when none is left); with a
  \<open>nil\<close> transports pointer it returns the error of the missing transports. When the
  first entry that is not well formed has no \<open>-\<close>, the result is the error that carries
  that entry; when it has a \<open>host:port\<close> that does not resolve, the error carries the entry
  and the resolver's error. When the options string does not parse, the result is the
  options error, whatever the entries are.
\<close>

theorem getServerBindaddrs_parses:
  "((if opts \<noteq> [] then parsePT2ServerParameters opts else Inr Map.empty) = Inr optionsMap \<and>
    Split bindaddrList CHR '','' = map entry_text es \<and> list_all (entry_ok resolveAddr) es \<longrightarrow>
      getServerBindaddrs parsePT2ServerParameters resolveAddr bindaddrList opts (Some ts) =
        (if filter (\<lambda>ba. MethodName ba \<in> set (Split ts CHR '','')) (map (entry_bindaddr optionsMap) es) = []
         then [NoValidBindaddrs] else [],
         Inr (filter (\<lambda>ba. MethodName ba \<in> set (Split ts CHR '',''))
                (map (entry_bindaddr optionsMap) es)))) \<and>
   ((if opts \<noteq> [] then parsePT2ServerParameters opts else Inr Map.empty) = Inr optionsMap \<and>
    Split bindaddrList CHR '','' = map entry_text es @ spec # rest \<and>
    list_all (entry_ok resolveAddr) es \<and> CHR ''-'' \<notin> set spec \<longrightarrow>
      getServerBindaddrs parsePT2ServerParameters resolveAddr bindaddrList opts transports =
        ([], Inl (BindaddrNoDash spec))) \<and>
   ((if opts \<noteq> [] then parsePT2ServerParameters opts else Inr Map.empty) = Inr optionsMap \<and>
    Split bindaddrList CHR '','' = map entry_text es @ (name @ ''-'' @ hostport) # rest \<and>
    list_all (entry_ok resolveAddr) es \<and> CHR ''-'' \<notin> set name \<and>
    resolveAddr hostport = Inl err \<longrightarrow>
      getServerBindaddrs parsePT2ServerParameters resolveAddr bindaddrList opts transports =
        ([], Inl (BindaddrError (name @ ''-'' @ hostport) err))) \<and>
   ((if opts \<noteq> [] then parsePT2ServerParameters opts else Inr Map.empty) = Inr optionsMap \<and>
    Split bindaddrList CHR '','' = map entry_text es \<and> list_all (entry_ok resolveAddr) es \<longrightarrow>
      getServerBindaddrs parsePT2ServerParameters resolveAddr bindaddrList opts None =
        ([], Inl MustSpecifyTransports)) \<and>
   (opts \<noteq> [] \<and> parsePT2ServerParameters opts = Inl optionsError \<longrightarrow>
      getServerBindaddrs parsePT2ServerParameters resolveAddr bindaddrList opts transports =
        ([ErrorParsingOptionsMap opts optionsError], Inl (OptionsError opts optionsError)))"
proof (intro conjI impI)
  assume h: "(if opts \<noteq> [] then parsePT2ServerParameters opts else Inr Map.empty) = Inr optionsMap \<and>
    Split bindaddrList CHR '','' = map entry_text es \<and> list_all (entry_ok resolveAddr) es"
  then have loop: "bindaddr_loop resolveAddr optionsMap (Split bindaddrList CHR '','') [] =
      Inr (map (entry_bindaddr optionsMap) es)"
    using bindaddr_loop_well_formed[of resolveAddr es optionsMap "[]"] by simp
  show "getServerBindaddrs parsePT2ServerParameters resolveAddr bindaddrList opts (Some ts) =
        (if filter (\<lambda>ba. MethodName ba \<in> set (Split ts CHR '','')) (map (entry_bindaddr optionsMap) es) = []
         then [NoValidBindaddrs] else [],
         Inr (filter (\<lambda>ba. MethodName ba \<in> set (Split ts CHR '',''))
                (map (entry_bindaddr optionsMap) es)))"
    unfolding getServerBindaddrs_def using h loop
    by (simp add: FilterBindaddrs_def Let_def)
next
  assume h: "(if opts \<noteq> [] then parsePT2ServerParameters opts else Inr Map.empty) = Inr optionsMap \<and>
    Split bindaddrList CHR '','' = map entry_text es @ spec # rest \<and>
    list_all (entry_ok resolveAddr) es \<and> CHR ''-'' \<notin> set spec"
  then have loop: "bindaddr_loop resolveAddr optionsMap (Split bindaddrList CHR '','') [] =
      Inl (BindaddrNoDash spec)"
    using bindaddr_loop_no_dash[of resolveAddr es spec optionsMap rest "[]"] by simp
  show "getServerBindaddrs parsePT2ServerParameters resolveAddr bindaddrList opts transports =
        ([], Inl (BindaddrNoDash spec))"
    unfolding getServerBindaddrs_def using h loop by simp
next
  assume h: "(if opts \<noteq> [] then parsePT2ServerParameters opts else Inr Map.empty) = Inr optionsMap \<and>
    Split bindaddrList CHR '','' = map entry_text es @ (name @ ''-'' @ hostport) # rest \<and>
    list_all (entry_ok resolveAddr) es \<and> CHR ''-'' \<notin> set name \<and>
    resolveAddr hostport = Inl err"
  then have loop: "bindaddr_loop resolveAddr optionsMap (Split bindaddrList CHR '','') [] =
      Inl (BindaddrError (name @ ''-'' @ hostport) err)"
    using bindaddr_loop_unresolved[of resolveAddr es name hostport err optionsMap rest "[]"]
    by simp
  show "getServerBindaddrs parsePT2ServerParameters resolveAddr bindaddrList opts transports =
        ([], Inl (BindaddrError (name @ ''-'' @ hostport) err))"
    unfolding getServerBindaddrs_def using h loop by simp
next
  assume h: "(if opts \<noteq> [] then parsePT2ServerParameters opts else Inr Map.empty) = Inr optionsMap \<and>
    Split bindaddrList CHR '','' = map entry_text es \<and> list_all (entry_ok resolveAddr) es"
  then have loop: "bindaddr_loop resolveAddr optionsMap (Split bindaddrList CHR '','') [] =
      Inr (map (entry_bindaddr optionsMap) es)"
    using bindaddr_loop_well_formed[of resolveAddr es optionsMap "[]"] by simp
  show "getServerBindaddrs parsePT2ServerParameters resolveAddr bindaddrList opts None =
        ([], Inl MustSpecifyTransports)"
    unfolding getServerBindaddrs_def using h loop by simp
next
  assume "opts \<noteq> [] \<and> parsePT2ServerParameters opts = Inl optionsError"
  then show "getServerBindaddrs parsePT2ServerParameters resolveAddr bindaddrList opts transports =
        ([ErrorParsingOptionsMap opts optionsError], Inl (OptionsError opts optionsError))"
    unfolding getServerBindaddrs_def by simp
qed

theorem getServerBindaddrs_parses_witness:
  "getServerBindaddrs (\<lambda>s. Inr (Map.empty :: string \<rightharpoonup> (string \<rightharpoonup> unit))) (\<lambda>s. Inr s)
     ''shadow-127.0.0.1:2222,obfs2-my-host:80,obfs4-[::1]:443'' [] (Some ''obfs4,shadow'') =
     ([], Inr [\<lparr>MethodName = ''shadow'', Addr = ''127.0.0.1:2222'', Options = None\<rparr>,
               \<lparr>MethodName = ''obfs4'', Addr = ''[::1]:443'', Options = None\<rparr>]) \<and>
   getServerBindaddrs (\<lambda>s. Inr (Map.empty :: string \<rightharpoonup> (string \<rightharpoonup> unit))) (\<lambda>s. Inr s)
     ''shadow-127.0.0.1:2222,obfs2:80,obfs4'' [] (Some ''obfs4,shadow'') =
     ([], Inl (BindaddrNoDash ''obfs2:80'')) \<and>
   getServerBindaddrs (\<lambda>s. Inr (Map.empty :: string \<rightharpoonup> (string \<rightharpoonup> unit)))
     (\<lambda>s. if s = ''nowhere:80'' then Inl (External ''no such host'') else Inr s)
     ''shadow-127.0.0.1:2222,obfs2-nowhere:80'' [] (Some ''obfs4,shadow'') =
     ([], Inl (BindaddrError ''obfs2-nowhere:80'' (External ''no such host''))) \<and>
   getServerBindaddrs (\<lambda>s. Inr (Map.empty :: string \<rightharpoonup> (string \<rightharpoonup> unit))) (\<lambda>s. Inr s)
     ''shadow-127.0.0.1:2222'' [] None = ([], Inl MustSpecifyTransports) \<and>
   getServerBindaddrs (\<lambda>s. Inl (External ''unexpected end of JSON input'')) (\<lambda>s. Inr s)
     ''shadow-127.0.0.1:2222'' ''{'' (Some ''shadow'') =
     ([ErrorParsingOptionsMap ''{'' (External ''unexpected end of JSON input'')],
      (Inl (OptionsError ''{'' (External ''unexpected end of JSON input''))
         :: error + unit Bindaddr list))"
proof -
  let ?P = "\<lambda>s :: string. (Inr Map.empty :: error + (string \<rightharpoonup> (string \<rightharpoonup> unit)))"
  let ?R = "\<lambda>s :: string. (Inr s :: error + addr)"
  let ?R' = "\<lambda>s :: string. (if s = ''nowhere:80'' then Inl (External ''no such host'')
                               else Inr s :: error + addr)"
  let ?shadow = "(''shadow'', ''127.0.0.1:2222'', ''127.0.0.1:2222'')"
  let ?es = "[?shadow, (''obfs2'', ''my-host:80'', ''my-host:80''),
              (''obfs4'', ''[::1]:443'', ''[::1]:443'')]"
  have a1: "(if ([] :: string) \<noteq> [] then ?P [] else Inr Map.empty) = Inr Map.empty" by simp
  have a2: "Split ''shadow-127.0.0.1:2222,obfs2-my-host:80,obfs4-[::1]:443'' CHR '','' =
            map entry_text ?es" by simp
  have a3: "list_all (entry_ok ?R) ?es" by simp
  have b2: "Split ''shadow-127.0.0.1:2222,obfs2:80,obfs4'' CHR '','' =
            map entry_text [?shadow] @ ''obfs2:80'' # [''obfs4'']" by simp
  have b3: "list_all (entry_ok ?R) [?shadow]" by simp
  have b4: "CHR ''-'' \<notin> set ''obfs2:80''" by simp
  have c2: "Split ''shadow-127.0.0.1:2222,obfs2-nowhere:80'' CHR '','' =
            map entry_text [?shadow] @ (''obfs2'' @ ''-'' @ ''nowhere:80'') # []" by simp
  have c3: "list_all (entry_ok ?R') [?shadow]" by simp
  have c4: "CHR ''-'' \<notin> set ''obfs2''" "?R' ''nowhere:80'' = Inl (External ''no such host'')"
    by simp_all
  have d2: "Split ''shadow-127.0.0.1:2222'' CHR '','' = map entry_text [?shadow]" by simp
  have ts: "Split ''obfs4,shadow'' CHR '','' = [''obfs4'', ''shadow'']" by simp
  have A: "getServerBindaddrs ?P ?R
      ''shadow-127.0.0.1:2222,obfs2-my-host:80,obfs4-[::1]:443'' [] (Some ''obfs4,shadow'') =
     ([], Inr [\<lparr>MethodName = ''shadow'', Addr = ''127.0.0.1:2222'', Options = None\<rparr>,
               \<lparr>MethodName = ''obfs4'', Addr = ''[::1]:443'', Options = None\<rparr>])"
    using getServerBindaddrs_parses [of "[]" ?P Map.empty
        "''shadow-127.0.0.1:2222,obfs2-my-host:80,obfs4-[::1]:443''" ?es ?R "''obfs4,shadow''"]
      a1 a2 a3 by (simp add: ts)
  have B: "getServerBindaddrs ?P ?R ''shadow-127.0.0.1:2222,obfs2:80,obfs4'' []
      (Some ''obfs4,shadow'') = ([], Inl (BindaddrNoDash ''obfs2:80''))"
    using getServerBindaddrs_parses [of "[]" ?P Map.empty
        "''shadow-127.0.0.1:2222,obfs2:80,obfs4''" "[?shadow]" ?R _ "''obfs2:80''" "[''obfs4'']"
        "Some ''obfs4,shadow''"]
      a1 b2 b3 b4 by simp
  have C: "getServerBindaddrs ?P ?R' ''shadow-127.0.0.1:2222,obfs2-nowhere:80'' []
      (Some ''obfs4,shadow'') =
      ([], Inl (BindaddrError ''obfs2-nowhere:80'' (External ''no such host'')))"
    using getServerBindaddrs_parses [of "[]" ?P Map.empty
        "''shadow-127.0.0.1:2222,obfs2-nowhere:80''" "[?shadow]" ?R' _ _ "[]"
        "Some ''obfs4,shadow''" "''obfs2''" "''nowhere:80''" "External ''no such host''"]
      a1 c2 c3 c4 by simp
  have D: "getServerBindaddrs ?P ?R ''shadow-127.0.0.1:2222'' [] None =
      ([], Inl MustSpecifyTransports)"
    using getServerBindaddrs_parses [of "[]" ?P Map.empty "''shadow-127.0.0.1:2222''"
        "[?shadow]" ?R]
      a1 d2 b3 by simp
  have E: "getServerBindaddrs (\<lambda>s. Inl (External ''unexpected end of JSON input'')) ?R
     ''shadow-127.0.0.1:2222'' ''{'' (Some ''shadow'') =
     ([ErrorParsingOptionsMap ''{'' (External ''unexpected end of JSON input'')],
      (Inl (OptionsError ''{'' (External ''unexpected end of JSON input''))
         :: error + unit Bindaddr list))"
    using getServerBindaddrs_parses [of "''{''" "\<lambda>s. Inl (External ''unexpected end of JSON input'')"
        _ "''shadow-127.0.0.1:2222''" _ ?R _ _ _ "Some ''shadow''" _ _ _
        "External ''unexpected end of JSON input''"]
    by simp
  show ?thesis using A B C D E by simp
qed

section \<open>Setup of the listeners\<close>

text \<open>
  \<open>ClientSetup\<close> skips a name whose bind fails and goes on: every name gets its status
  line before \<open>CmethodsDone\<close>, and \<open>launched\<close> is true exactly when a listener was
  opened.
\<close>

lemma ClientSetup_loop_ptlines:
  "length (ptlines (ClientSetup_loop L a i names st)) = length (ptlines st) + length names + 1"
proof (induction names arbitrary: i st)
  case Nil
  then show ?case by simp
next
  case (Cons n names)
  show ?case by (cases "L i a") (simp_all add: Cons.IH)
qed

lemma ClientSetup_every_name_attempted:
  "length (ptlines (ClientSetup L a p names opts)) = length names + 1"
  unfolding ClientSetup_def by (simp add: ClientSetup_loop_ptlines setup_init_def)

lemma ClientSetup_loop_launched:
  "launched st = (listeners st \<noteq> []) \<Longrightarrow>
   launched (ClientSetup_loop L a i names st) = (listeners (ClientSetup_loop L a i names st) \<noteq> [])"
proof (induction names arbitrary: i st)
  case Nil
  then show ?case by simp
next
  case (Cons n names)
  show ?case
  proof (cases "L i a")
    case (Inl e)
    then show ?thesis using Cons.prems by (simp add: Cons.IH)
  next
    case (Inr ln)
    then show ?thesis by (simp add: Cons.IH)
  qed
qed

lemma ClientSetup_launched_iff:
  "launched (ClientSetup L a p names opts) = (listeners (ClientSetup L a p names opts) \<noteq> [])"
  unfolding ClientSetup_def by (rule ClientSetup_loop_launched) (simp add: setup_init_def)

text \<open>
  C1 says that a BindSpec whose transport misses a required parameter is skipped, the
  remaining ones are still attempted, and \<open>launched\<close> is true if and only if a listener
  started. \<open>ServerSetup\<close> does not do this: it returns at the first BindSpec that fails.
  With obfs2 and then shadow (no password), the obfs2 accept loop is started and the
  function returns \<open>launched = false\<close> with no listeners; with shadow first, obfs2 is
  never attempted.
\<close>

theorem ServerSetup_aborts_at_first_failure:
  "ServerSetup no_args (serverInfo [obfs2_bindaddr, shadow_bindaddr]) [] =
     Returns \<lparr>launched = False, listeners = [],
              acceptLoops = [(''obfs2'', TransportListener Obfs2Transport ''127.0.0.1:2221'')],
              ptlines = [], logged = []\<rparr> \<and>
   ServerSetup no_args (serverInfo [shadow_bindaddr, obfs2_bindaddr]) [] =
     Returns \<lparr>launched = False, listeners = [], acceptLoops = [], ptlines = [], logged = []\<rparr>"
  by (simp add: ServerSetup_def no_args_def serverInfo_def obfs2_bindaddr_def shadow_bindaddr_def
      setup_init_def switch_name_def Args_Get_def Let_def)

text \<open>
  C3 says that an obfs4 BindSpec with a \<open>cert\<close> and an \<open>iat-mode\<close> that parses as an integer
  gets a listener, and that a bad \<open>iat-mode\<close> is an error. The test of the error of
  \<open>strconv.Atoi\<close> is inverted: with \<open>iat-mode=0\<close> the function logs "bad iat-mode
  value" and returns with nothing launched, and with \<open>iat-mode=fast\<close> it starts an obfs4
  listener with mode 0.
\<close>

theorem obfs4_inverted:
  "ServerSetup (obfs4_args ''0'') (serverInfo [obfs4_bindaddr]) [] =
     Returns \<lparr>launched = False, listeners = [], acceptLoops = [], ptlines = [],
              logged = [Obfs4BadIatMode [''0'']]\<rparr> \<and>
   ServerSetup (obfs4_args ''fast'') (serverInfo [obfs4_bindaddr]) [] =
     Returns \<lparr>launched = True,
              listeners = [TransportListener (Obfs4Client ''AAAA'' 0) ''127.0.0.1:2223''],
              acceptLoops = [(''obfs4'', TransportListener (Obfs4Client ''AAAA'' 0) ''127.0.0.1:2223'')],
              ptlines = [SmethodsDone], logged = []\<rparr>"
  by (simp add: ServerSetup_def obfs4_args_def serverInfo_def obfs4_bindaddr_def setup_init_def
      switch_name_def Atoi_def is_digit_def Let_def)

section \<open>Accept loops\<close>

text \<open>
  Both loops go on after every accept result that is not permanent, and the client loop
  stops at the first permanent one with its listener closed.
\<close>

lemma clientAcceptLoop_transient:
  "list_all (\<lambda>r. \<not> permanent r) rs \<Longrightarrow> running (clientAcceptLoop rs st) = running st \<and>
     listenerOpen (clientAcceptLoop rs st) = listenerOpen st"
  by (induction rs st rule: clientAcceptLoop.induct) auto

lemma serverAcceptLoop_transient:
  "list_all (\<lambda>r. \<not> permanent r) rs \<Longrightarrow> running (serverAcceptLoop rs st) = running st"
  by (induction rs st rule: serverAcceptLoop.induct) auto

lemma clientAcceptLoop_permanent:
  "list_all (\<lambda>r. \<not> permanent r) rs \<Longrightarrow> permanent r \<Longrightarrow>
   running (clientAcceptLoop (rs @ r # rs') st) = False \<and>
   listenerOpen (clientAcceptLoop (rs @ r # rs') st) = False \<and>
   handlers (clientAcceptLoop (rs @ r # rs') st) = handlers (clientAcceptLoop rs st)"
  by (induction rs st rule: clientAcceptLoop.induct) (auto elim: permanent.elims)

lemma serverAcceptLoop_listenerOpen:
  "listenerOpen (serverAcceptLoop rs st) = listenerOpen st"
  by (induction rs st rule: serverAcceptLoop.induct) auto

text \<open>
  C4 says that every accept loop, client and server alike, closes its listener when it
  ends on a permanent error. \<open>serverAcceptLoop\<close> never closes its listener: after a
  temporary and then a permanent error it has stopped and the listener is still open,
  where \<open>clientAcceptLoop\<close> on the same results has closed it. Neither loop logs a
  temporary error.
\<close>

theorem serverAcceptLoop_leaves_listener_open:
  "serverAcceptLoop [AcceptError True True, AcceptError True False] loop0 =
     \<lparr>running = False, listenerOpen = True, handlers = [], loopLog = []\<rparr> \<and>
   clientAcceptLoop [AcceptError True True, AcceptError True False] loop0 =
     \<lparr>running = False, listenerOpen = False, handlers = [], loopLog = [ServerAcceptLoopFailed]\<rparr> \<and>
   (\<forall>rs st. listenerOpen (serverAcceptLoop rs st) = listenerOpen st)"
  by (simp add: loop0_def serverAcceptLoop_listenerOpen)

section \<open>The relay\<close>

text \<open>
  \<open>copyLoop\<close> returns exactly when both copies return; a copy returns when its source
  ends or a write fails. Swapping the two connections and the order in which the copies
  finish gives the same result, and the result is the error (or \<open>nil\<close>) of the copy that
  finished first.
\<close>

lemma copyLoop_returns_iff:
  "(copyLoop a b ord \<noteq> None) = (io_Copy b a \<noteq> None \<and> io_Copy a b \<noteq> None)"
  by (simp add: copyLoop_def split: option.splits)

lemma copy_chunks_returns_iff:
  "(copy_chunks werr cs fin \<noteq> None) = (fin \<noteq> Idle \<or> (werr \<noteq> None \<and> cs \<noteq> []))"
  by (induction werr cs fin rule: copy_chunks.induct) (auto split: option.splits)

lemma copyLoop_swap: "copyLoop a b ord = copyLoop b a (\<not> ord)"
  by (simp add: copyLoop_def split: option.splits)

lemma copyLoop_order:
  "copyLoop closed_conn reset_conn True = Some None \<and>
   copyLoop closed_conn reset_conn False = Some (Some (External ''connection reset by peer''))"
  by (simp add: copyLoop_def io_Copy_def closed_conn_def reset_conn_def)

text \<open>
  C2 says that the relay returns whenever one of the two connections reaches
  end-of-stream, also when the other one produces no more data. It does not: with one
  side at end-of-stream and the other silent and open, the copy from the closed side
  returns \<open>nil\<close>, the copy from the silent side never returns, and \<open>wg.Wait()\<close> waits
  for ever, whichever way round the connections are passed and whichever copy finishes
  first.
\<close>

theorem copyLoop_blocks_on_idle_side:
  "io_Copy idle_conn closed_conn = Some None \<and>
   io_Copy closed_conn idle_conn = None \<and>
   copyLoop closed_conn idle_conn True = None \<and>
   copyLoop closed_conn idle_conn False = None \<and>
   copyLoop idle_conn closed_conn True = None \<and>
   copyLoop idle_conn closed_conn False = None"
  by (simp add: copyLoop_def io_Copy_def closed_conn_def idle_conn_def)

section \<open>The client handler\<close>

text \<open>
  After a failed dial the handler logs, sends one reply and returns without entering the
  relay; the reply code is made from the handshake's \<open>nil\<close> error, whatever the dial
  error is. After a successful dial the success reply comes before the relay. The
  handler never closes a connection.
\<close>

lemma clientHandler_dial_failure:
  assumes "Handshake h (opts = []) = Inr target" and "ParseOptions h opts = Inr args"
    and "(case proxyURI of None \<Rightarrow> None | Some u \<Rightarrow> FromURL h u) = None"
    and "ArgsToDialer h target name args = Some (Inl err2)"
  shows "clientHandler h name c proxyURI opts =
           ([Log (OutgoingConnectionFailed None), Reply (ErrorToReplyCode h None)], Returned)"
  using assms by (simp add: clientHandler_def)

lemma clientHandler_never_closes: "Closed \<notin> set (fst (clientHandler h name c proxyURI opts))"
  by (simp add: clientHandler_def Let_def split: sum.splits option.splits)

lemma clientHandler_dial_success:
  assumes "Handshake h (opts = []) = Inr target" and "ParseOptions h opts = Inr args"
    and "(case proxyURI of None \<Rightarrow> None | Some u \<Rightarrow> FromURL h u) = None"
    and "ArgsToDialer h target name args = Some (Inr remote)"
    and "ReplyResult h ReplySucceeded = None"
  shows "take 2 (fst (clientHandler h name c proxyURI opts)) = [Reply ReplySucceeded, RelayEntered]"
  using assms by (simp add: clientHandler_def split: option.splits)

text \<open>
  C8 says that after a failed dial the handler replies with a failure indication derived
  from the dial error and closes the connection. The reply is the same general failure
  for a refused connection and for an unreachable host, where \<open>ErrorToReplyCode\<close> of the
  dial error is another code, and no run of the handler closes a connection.
\<close>

theorem clientHandler_reply_ignores_dial_error:
  "clientHandler (demo_handler (Inl (External ''connection refused''))) ''obfs2'' idle_conn None [] =
     ([Log (OutgoingConnectionFailed None), Reply ReplyGeneralFailure], Returned) \<and>
   clientHandler (demo_handler (Inl (External ''no route to host''))) ''obfs2'' idle_conn None [] =
     ([Log (OutgoingConnectionFailed None), Reply ReplyGeneralFailure], Returned) \<and>
   ErrorToReplyCode (demo_handler (Inl (External ''connection refused'')))
     (Some (External ''connection refused'')) = ReplyConnectionRefused \<and>
   (\<forall>h name c proxyURI opts. Closed \<notin> set (fst (clientHandler h name c proxyURI opts)))"
  by (simp add: clientHandler_never_closes) (simp add: clientHandler_def demo_handler_def)

end
